theory Spec2Isabelle
  imports Main
begin

section \<open>JavaScript values used by the two modules\<close>

text \<open>
  A JavaScript string is modelled as a \<^typ>\<open>string\<close>; a value of type
  \<^verbatim>\<open>string | undefined\<close> or \<^verbatim>\<open>string | null\<close> as a \<^typ>\<open>string option\<close>.
  The characters of \<^typ>\<open>char\<close> are the code units 0 to 255.

  A thrown value is either an instance of \<^verbatim>\<open>Error\<close>, which carries a message, or any
  other value. Both \<^verbatim>\<open>catch\<close> blocks of the program only test
  \<^verbatim>\<open>instanceof Error\<close> and read \<^verbatim>\<open>message\<close>, so nothing else of the value is kept.
\<close>

datatype js_thrown = ErrorInstance string | NotError

text \<open>
  The operand of \<^verbatim>\<open>!x\<close> for \<^verbatim>\<open>x\<close> a string, \<^verbatim>\<open>undefined\<close> or \<^verbatim>\<open>null\<close>:
  the negation holds for the absent value and for the empty string.
\<close>

fun falsy :: "string option \<Rightarrow> bool" where
  "falsy None = True"
| "falsy (Some s) = (s = [])"

text \<open>
  \<^verbatim>\<open>String.prototype.trim\<close> removes white space and line terminators from both ends.
  Among the code units 0 to 255 these are TAB, LF, VT, FF, CR, SP and NBSP.
\<close>

definition is_whitespace :: "char \<Rightarrow> bool" where
  "is_whitespace c \<longleftrightarrow>
     c \<in> set [CHR 0x09, CHR 0x0A, CHR 0x0B, CHR 0x0C, CHR 0x0D, CHR 0x20, CHR 0xA0]"

definition trim :: "string \<Rightarrow> string" where
  "trim s = rev (dropWhile is_whitespace (rev (dropWhile is_whitespace s)))"


section \<open>services/geminiService.ts\<close>

subsection \<open>Module initialisation\<close>

definition API_KEY_NOT_SET :: string where
  "API_KEY_NOT_SET =
     ''The API_KEY environment variable is not set. Please set it to a valid Google Gemini API key.''"

text \<open>The client object built by \<^verbatim>\<open>new GoogleGenAI({ apiKey: API_KEY })\<close>.\<close>

record GoogleGenAI =
  apiKey :: string

text \<open>
  The top level of the module, run once when the module is first imported. Its
  argument is \<^verbatim>\<open>process.env.API_KEY\<close>. The guard is \<^verbatim>\<open>if (!API_KEY) throw ...\<close>;
  the constructor of the client library is taken to return normally.
\<close>

definition geminiService_init :: "string option \<Rightarrow> js_thrown + GoogleGenAI" where
  "geminiService_init API_KEY =
     (case API_KEY of
        None \<Rightarrow> Inl (ErrorInstance API_KEY_NOT_SET)
      | Some k \<Rightarrow>
          if falsy (Some k) then Inl (ErrorInstance API_KEY_NOT_SET)
          else Inr \<lparr>apiKey = k\<rparr>)"

subsection \<open>generatePhysicsFact\<close>

text \<open>
  How \<^verbatim>\<open>await ai.models.generateContent(...)\<close> ends: the promise resolves with a
  response whose \<^verbatim>\<open>text\<close> is a string or \<^verbatim>\<open>undefined\<close>, or it rejects with a
  thrown value. A value thrown while the response is read counts as a rejection: it
  reaches the same \<^verbatim>\<open>catch\<close> block.
\<close>

datatype api_outcome = Resolves "string option" | Rejects js_thrown

definition NO_CONTENT :: string where
  "NO_CONTENT = ''No content was returned from the API.''"

definition FAILED_PREFIX :: string where
  "FAILED_PREFIX = ''Failed to generate fact from AI service: ''"

definition UNKNOWN_AI_ERROR :: string where
  "UNKNOWN_AI_ERROR = ''An unknown error occurred while communicating with the AI service.''"

text \<open>The body of the \<^verbatim>\<open>try\<close> block: \<open>Inl\<close> is a value thrown inside it.\<close>

definition try_block :: "api_outcome \<Rightarrow> js_thrown + string" where
  "try_block outcome =
     (case outcome of
        Rejects e \<Rightarrow> Inl e
      | Resolves text \<Rightarrow>
          (case text of
             None \<Rightarrow> Inl (ErrorInstance NO_CONTENT)
           | Some t \<Rightarrow>
               if falsy (Some t) then Inl (ErrorInstance NO_CONTENT)
               else Inr (trim t)))"

text \<open>
  The \<^verbatim>\<open>catch\<close> block: every path through it throws, and the result is the value
  it throws. The call of \<^verbatim>\<open>console.error\<close> changes nothing the program reads.
\<close>

fun catch_block :: "js_thrown \<Rightarrow> js_thrown" where
  "catch_block (ErrorInstance m) = ErrorInstance (FAILED_PREFIX @ m)"
| "catch_block NotError = ErrorInstance UNKNOWN_AI_ERROR"

definition generatePhysicsFact :: "api_outcome \<Rightarrow> js_thrown + string" where
  "generatePhysicsFact outcome =
     (case try_block outcome of
        Inr newFact \<Rightarrow> Inr newFact
      | Inl e \<Rightarrow> Inl (catch_block e))"


section \<open>App.tsx\<close>

subsection \<open>The state of the component\<close>

text \<open>
  The three \<^verbatim>\<open>useState\<close> cells. The field \<^verbatim>\<open>fact\<close> is written \<open>fact'\<close> here,
  since \<open>fact\<close> is the factorial of the library.
\<close>

record app_state =
  fact' :: "string option"
  isLoading :: bool
  error :: "string option"

definition initial_state :: app_state where
  "initial_state = \<lparr>fact' = None, isLoading = True, error = None\<rparr>"

text \<open>A call of one of the three state setters, and its effect on the state.\<close>

datatype set_call = SetFact "string option" | SetIsLoading bool | SetError "string option"

fun apply_set :: "set_call \<Rightarrow> app_state \<Rightarrow> app_state" where
  "apply_set (SetFact v) s = s\<lparr>fact' := v\<rparr>"
| "apply_set (SetIsLoading b) s = s\<lparr>isLoading := b\<rparr>"
| "apply_set (SetError v) s = s\<lparr>error := v\<rparr>"

text \<open>The setter calls of one synchronous run of the handler, applied in order.\<close>

definition commit :: "set_call list \<Rightarrow> app_state \<Rightarrow> app_state" where
  "commit calls s = fold apply_set calls s"

subsection \<open>handleGenerateFact\<close>

text \<open>
  The handler runs in two synchronous parts, split at its single \<^verbatim>\<open>await\<close>.
  The first part reads \<^verbatim>\<open>isLoading\<close> from the closure of the render that created
  the handler; that value is the argument here.
\<close>

definition before_await :: "bool \<Rightarrow> set_call list" where
  "before_await isLoading_in_closure =
     (if \<not> isLoading_in_closure then [SetIsLoading True] else []) @ [SetError None]"

text \<open>
  The second part runs when \<^verbatim>\<open>generatePhysicsFact()\<close> settles: the rest of the
  \<^verbatim>\<open>try\<close> block or the \<^verbatim>\<open>catch\<close> block, then the \<^verbatim>\<open>finally\<close> block.
\<close>

definition UNKNOWN_ERROR :: string where
  "UNKNOWN_ERROR = ''An unknown error occurred.''"

fun errorMessage :: "js_thrown \<Rightarrow> string" where
  "errorMessage (ErrorInstance m) = m"
| "errorMessage NotError = UNKNOWN_ERROR"

definition after_await :: "js_thrown + string \<Rightarrow> set_call list" where
  "after_await settled =
     (case settled of
        Inr newFact \<Rightarrow> [SetFact (Some newFact)]
      | Inl e \<Rightarrow> [SetError (Some (errorMessage e)), SetFact None])
     @ [SetIsLoading False]"

text \<open>
  \<^verbatim>\<open>useCallback\<close> has the dependency \<^verbatim>\<open>[isLoading]\<close>, so the handler of the current
  render holds the current value of \<^verbatim>\<open>isLoading\<close>. The handler called by the mount
  effect is that of the first render, and it is called while the state is still the
  initial one. In both cases the closure's value is the state's.
\<close>

definition refresh_start :: "app_state \<Rightarrow> app_state" where
  "refresh_start s = commit (before_await (isLoading s)) s"

definition refresh_settle :: "js_thrown + string \<Rightarrow> app_state \<Rightarrow> app_state" where
  "refresh_settle settled s = commit (after_await settled) s"

subsection \<open>The derived flag\<close>

text \<open>\<^verbatim>\<open>const isCardLoading = isLoading && !fact && !error\<close>\<close>

definition isCardLoading :: "app_state \<Rightarrow> bool" where
  "isCardLoading s \<longleftrightarrow> isLoading s \<and> falsy (fact' s) \<and> falsy (error s)"


subsection \<open>Loading the application\<close>

text \<open>
  \<^verbatim>\<open>App.tsx\<close> imports the service module, so the top level of the service module runs
  first. A value thrown there ends the loading of \<^verbatim>\<open>App.tsx\<close>: the component is never
  defined and its state cells are never created.
\<close>

definition load_App :: "string option \<Rightarrow> js_thrown + (GoogleGenAI \<times> app_state)" where
  "load_App API_KEY =
     (case geminiService_init API_KEY of
        Inl e \<Rightarrow> Inl e
      | Inr ai \<Rightarrow> Inr (ai, initial_state))"

subsection \<open>Runs of the component\<close>

text \<open>
  A run interleaves invocations of the handler with settlements of the calls it made.
  Beside the state cells the model counts the calls of \<^verbatim>\<open>generatePhysicsFact\<close> that
  have not settled yet, and records whether the handler has been invoked at all (the
  mount effect is its first invocation).
\<close>

record controller =
  ui :: app_state
  inflight :: nat
  mounted :: bool

definition initial_controller :: controller where
  "initial_controller = \<lparr>ui = initial_state, inflight = 0, mounted = False\<rparr>"

datatype event = Invoke | Settle "js_thrown + string"

definition invoke :: "controller \<Rightarrow> controller" where
  "invoke c = c\<lparr>ui := refresh_start (ui c), inflight := Suc (inflight c), mounted := True\<rparr>"

definition settle :: "js_thrown + string \<Rightarrow> controller \<Rightarrow> controller" where
  "settle settled c = c\<lparr>ui := refresh_settle settled (ui c), inflight := inflight c - 1\<rparr>"

text \<open>
  The handler itself checks nothing before it starts: it can be invoked in every state.
  A settlement needs a call that has not settled.
\<close>

fun step :: "event \<Rightarrow> controller \<Rightarrow> controller option" where
  "step Invoke c = Some (invoke c)"
| "step (Settle settled) c = (if inflight c = 0 then None else Some (settle settled c))"

fun exec :: "event list \<Rightarrow> controller \<Rightarrow> controller option" where
  "exec [] c = Some c"
| "exec (e # es) c = (case step e c of None \<Rightarrow> None | Some c' \<Rightarrow> exec es c')"

text \<open>
  The rendered component invokes the handler from two places only: the mount effect,
  which runs once, and the button, which has \<^verbatim>\<open>disabled={isLoading}\<close>.
\<close>

definition refresh_enabled :: "controller \<Rightarrow> bool" where
  "refresh_enabled c \<longleftrightarrow> \<not> mounted c \<or> \<not> isLoading (ui c)"

fun ui_step :: "event \<Rightarrow> controller \<Rightarrow> controller option" where
  "ui_step Invoke c = (if refresh_enabled c then Some (invoke c) else None)"
| "ui_step (Settle settled) c = (if inflight c = 0 then None else Some (settle settled c))"

fun ui_exec :: "event list \<Rightarrow> controller \<Rightarrow> controller option" where
  "ui_exec [] c = Some c"
| "ui_exec (e # es) c = (case ui_step e c of None \<Rightarrow> None | Some c' \<Rightarrow> ui_exec es c')"

text \<open>
  What holds in every state of a run through the rendered component: at most one call
  is in flight; while one is, the button is busy and no error is set; fact and error are
  not both set.
\<close>

definition ui_inv :: "controller \<Rightarrow> bool" where
  "ui_inv c \<longleftrightarrow>
     inflight c \<le> 1 \<and>
     (inflight c = 1 \<longrightarrow> isLoading (ui c) \<and> error (ui c) = None) \<and>
     (\<not> mounted c \<longrightarrow> inflight c = 0) \<and>
     (fact' (ui c) = None \<or> error (ui c) = None)"


section \<open>Basic facts\<close>

lemma refresh_start_eq: "refresh_start s = s\<lparr>isLoading := True, error := None\<rparr>"
  by (cases "isLoading s") (simp_all add: refresh_start_def before_await_def commit_def)

lemma refresh_settle_success:
  "refresh_settle (Inr t) s = s\<lparr>fact' := Some t, isLoading := False\<rparr>"
  by (simp add: refresh_settle_def after_await_def commit_def)

lemma refresh_settle_failure:
  "refresh_settle (Inl e) s = s\<lparr>error := Some (errorMessage e), fact' := None, isLoading := False\<rparr>"
  by (simp add: refresh_settle_def after_await_def commit_def)

lemma ui_inv_initial: "ui_inv initial_controller"
  by (simp add: ui_inv_def initial_controller_def initial_state_def)

lemma ui_step_inv:
  assumes "ui_inv c" and "ui_step e c = Some c'"
  shows "ui_inv c'"
proof (cases e)
  case Invoke
  with assms have en: "refresh_enabled c" and c': "c' = invoke c"
    by (auto split: if_splits)
  from en assms(1) have "inflight c = 0"
    by (auto simp: refresh_enabled_def ui_inv_def)
  with assms(1) show ?thesis
    by (simp add: c' invoke_def ui_inv_def refresh_start_eq)
next
  case (Settle settled)
  with assms have one: "inflight c = 1" and c': "c' = settle settled c"
    by (auto simp: ui_inv_def split: if_splits)
  show ?thesis
  proof (cases settled)
    case (Inl e)
    with assms(1) one show ?thesis
      by (simp add: c' settle_def ui_inv_def refresh_settle_failure)
  next
    case (Inr t)
    with assms(1) one show ?thesis
      by (simp add: c' settle_def ui_inv_def refresh_settle_success)
  qed
qed

lemma ui_exec_inv: "ui_inv c \<Longrightarrow> ui_exec evs c = Some c' \<Longrightarrow> ui_inv c'"
proof (induction evs arbitrary: c)
  case Nil
  then show ?case by simp
next
  case (Cons e evs)
  then obtain d where d: "ui_step e c = Some d" and rest: "ui_exec evs d = Some c'"
    by (auto split: option.splits)
  from Cons.prems(1) d have "ui_inv d" by (rule ui_step_inv)
  then show ?case using rest by (rule Cons.IH)
qed

lemma ui_exec_reachable_inv: "ui_exec evs initial_controller = Some c \<Longrightarrow> ui_inv c"
  using ui_inv_initial by (rule ui_exec_inv)

text \<open>
  In a run through the rendered component no error is set while a call is in flight:
  there the test of \<^verbatim>\<open>!error\<close> in the derived flag always succeeds.
\<close>

lemma gated_loading_no_error:
  assumes "ui_exec evs initial_controller = Some c" and "0 < inflight c"
  shows "error (ui c) = None"
proof -
  from assms(1) have "ui_inv c" by (rule ui_exec_reachable_inv)
  with assms(2) show ?thesis by (auto simp: ui_inv_def)
qed


lemma all_dropWhile_iff:
  "(\<forall>x \<in> set (dropWhile P xs). P x) \<longleftrightarrow> (\<forall>x \<in> set xs. P x)"
proof
  assume all: "\<forall>x \<in> set (dropWhile P xs). P x"
  have "dropWhile P xs = []"
  proof (rule ccontr)
    assume ne: "dropWhile P xs \<noteq> []"
    then have "\<not> P (hd (dropWhile P xs))" by (rule hd_dropWhile)
    moreover from ne have "hd (dropWhile P xs) \<in> set (dropWhile P xs)" by simp
    ultimately show False using all by blast
  qed
  then show "\<forall>x \<in> set xs. P x" by (simp add: dropWhile_eq_Nil_conv)
next
  assume "\<forall>x \<in> set xs. P x"
  then show "\<forall>x \<in> set (dropWhile P xs). P x" by (blast dest: set_dropWhileD)
qed

lemma trim_empty_iff: "trim t = [] \<longleftrightarrow> (\<forall>c \<in> set t. is_whitespace c)"
  by (simp add: trim_def dropWhile_eq_Nil_conv all_dropWhile_iff)

lemma dropWhile_not_hd: "xs \<noteq> [] \<Longrightarrow> \<not> P (hd xs) \<Longrightarrow> dropWhile P xs = xs"
  by (cases xs) simp_all

text \<open>
  In general: white space around a text that itself starts and ends with other
  characters is removed, and the text between is returned as it is.
\<close>

lemma trim_strips_both_ends:
  assumes l: "\<forall>c \<in> set l. is_whitespace c"
    and r: "\<forall>c \<in> set r. is_whitespace c"
    and ne: "core \<noteq> []"
    and first: "\<not> is_whitespace (hd core)"
    and last: "\<not> is_whitespace (last core)"
  shows "trim (l @ core @ r) = core"
proof -
  from l have "dropWhile is_whitespace (l @ core @ r) = dropWhile is_whitespace (core @ r)"
    by (simp add: dropWhile_append2)
  also from ne first have "\<dots> = core @ r"
    by (simp add: dropWhile_not_hd)
  finally have front: "dropWhile is_whitespace (l @ core @ r) = core @ r" .
  from r have "dropWhile is_whitespace (rev r @ rev core) = dropWhile is_whitespace (rev core)"
    by (intro dropWhile_append2) simp
  also from ne last have "\<dots> = rev core"
    by (simp add: dropWhile_not_hd hd_rev)
  finally show ?thesis
    by (simp add: trim_def front)
qed

lemma generatePhysicsFact_Rejects:
  "generatePhysicsFact (Rejects e) = Inl (catch_block e)"
  by (simp add: generatePhysicsFact_def try_block_def)

lemma generatePhysicsFact_Resolves:
  "generatePhysicsFact (Resolves payload) =
     (if falsy payload then Inl (ErrorInstance (FAILED_PREFIX @ NO_CONTENT))
      else Inr (trim (the payload)))"
  by (cases payload) (simp_all add: generatePhysicsFact_def try_block_def)


section \<open>Mutual exclusion of fact and error\<close>

text \<open>
  C1, as stated, for any sequence of invocations and settlements: it fails when two
  invocations overlap. The first call fails and sets the error; the second call then
  succeeds and sets the fact, and nothing clears the error.
\<close>

theorem overlapping_refresh_sets_fact_and_error:
  "exec [Invoke, Invoke,
         Settle (generatePhysicsFact (Rejects (ErrorInstance ''timeout''))),
         Settle (generatePhysicsFact (Resolves (Some ''Fact B'')))] initial_controller
   = Some \<lparr>ui = \<lparr>fact' = Some ''Fact B'', isLoading = False,
                 error = Some ''Failed to generate fact from AI service: timeout''\<rparr>,
           inflight = 0, mounted = True\<rparr>"
  by (simp add: initial_controller_def initial_state_def invoke_def settle_def
      refresh_start_eq refresh_settle_success refresh_settle_failure
      generatePhysicsFact_def try_block_def trim_def is_whitespace_def FAILED_PREFIX_def)

text \<open>
  C1, amended: in every state of a run in which the handler is invoked by the mount
  effect and the button only (so never while a call is in flight), fact and error are
  not both set; a successful settlement there leaves the error null and a failed one
  leaves the fact null.
\<close>

theorem fact_error_exclusive:
  assumes "ui_exec evs initial_controller = Some c"
  shows "(fact' (ui c) = None \<or> error (ui c) = None) \<and>
         (\<forall>t c'. ui_step (Settle (Inr t)) c = Some c' \<longrightarrow>
            fact' (ui c') = Some t \<and> error (ui c') = None) \<and>
         (\<forall>e c'. ui_step (Settle (Inl e)) c = Some c' \<longrightarrow>
            fact' (ui c') = None \<and> error (ui c') = Some (errorMessage e))"
proof -
  from assms have inv: "ui_inv c" by (rule ui_exec_reachable_inv)
  have "fact' (ui c) = None \<or> error (ui c) = None"
    using inv by (simp add: ui_inv_def)
  moreover have "\<forall>t c'. ui_step (Settle (Inr t)) c = Some c' \<longrightarrow>
      fact' (ui c') = Some t \<and> error (ui c') = None"
    using inv by (auto simp: ui_inv_def settle_def refresh_settle_success split: if_splits)
  moreover have "\<forall>e c'. ui_step (Settle (Inl e)) c = Some c' \<longrightarrow>
      fact' (ui c') = None \<and> error (ui c') = Some (errorMessage e)"
    by (auto simp: settle_def refresh_settle_failure split: if_splits)
  ultimately show ?thesis by blast
qed

theorem fact_error_exclusive_witness:
  "ui_exec [Invoke, Settle (Inl (ErrorInstance ''timeout'')), Invoke] initial_controller
     = Some \<lparr>ui = \<lparr>fact' = None, isLoading = True, error = None\<rparr>,
             inflight = 1, mounted = True\<rparr> \<and>
   ui_step (Settle (Inr ''Fact B''))
       \<lparr>ui = \<lparr>fact' = None, isLoading = True, error = None\<rparr>, inflight = 1, mounted = True\<rparr>
     = Some \<lparr>ui = \<lparr>fact' = Some ''Fact B'', isLoading = False, error = None\<rparr>,
             inflight = 0, mounted = True\<rparr>"
proof -
  have run: "ui_exec [Invoke, Settle (Inl (ErrorInstance ''timeout'')), Invoke] initial_controller
     = Some \<lparr>ui = \<lparr>fact' = None, isLoading = True, error = None\<rparr>,
             inflight = 1, mounted = True\<rparr>"
    by (simp add: initial_controller_def initial_state_def invoke_def settle_def
        refresh_enabled_def refresh_start_eq refresh_settle_failure)
  show ?thesis
    using run fact_error_exclusive [OF run]
    by (simp add: settle_def refresh_settle_success)
qed


section \<open>Trimming\<close>

text \<open>
  C9. A payload made of white space, then a text that starts and ends with characters
  that are not white space, then white space again, is returned as exactly that text:
  the white space at both ends is removed and everything between the first and the
  last other character, white space included, is kept. For the payload
  \<^verbatim>\<open>"  A fact.  \n"\<close> the fact returned is exactly \<^verbatim>\<open>"A fact."\<close>.
\<close>

theorem trim_strips_ends_keeps_inside:
  "(list_all is_whitespace l \<and> list_all is_whitespace r \<and> core \<noteq> [] \<and>
      \<not> is_whitespace (hd core) \<and> \<not> is_whitespace (last core) \<longrightarrow>
      generatePhysicsFact (Resolves (Some (l @ core @ r))) = Inr core) \<and>
   generatePhysicsFact (Resolves (Some (''  A fact.  '' @ [CHR 0x0A]))) = Inr ''A fact.''"
proof -
  have general: "generatePhysicsFact (Resolves (Some (l @ core @ r))) = Inr core"
    if "list_all is_whitespace l" "list_all is_whitespace r" "core \<noteq> []"
      "\<not> is_whitespace (hd core)" "\<not> is_whitespace (last core)"
    for l core r
  proof -
    from that have "trim (l @ core @ r) = core"
      by (intro trim_strips_both_ends) (simp_all add: list_all_iff)
    with that(3) show ?thesis
      by (simp add: generatePhysicsFact_Resolves)
  qed
  have "generatePhysicsFact (Resolves (Some (''  '' @ ''A fact.'' @ (''  '' @ [CHR 0x0A]))))
      = Inr ''A fact.''"
    by (rule general) (simp_all add: is_whitespace_def)
  then have "generatePhysicsFact (Resolves (Some (''  A fact.  '' @ [CHR 0x0A]))) = Inr ''A fact.''"
    by simp
  with general show ?thesis by blast
qed

theorem trim_strips_ends_keeps_inside_witness:
  "list_all is_whitespace [CHR 0x09, CHR 0x20] \<and>
   list_all is_whitespace [CHR 0x0D, CHR 0x0A] \<and>
   ''E = m c^2'' \<noteq> [] \<and>
   \<not> is_whitespace (hd ''E = m c^2'') \<and>
   \<not> is_whitespace (last ''E = m c^2'') \<and>
   generatePhysicsFact (Resolves (Some ([CHR 0x09, CHR 0x20] @ ''E = m c^2'' @ [CHR 0x0D, CHR 0x0A])))
     = Inr ''E = m c^2''"
  using trim_strips_ends_keeps_inside
          [of "[CHR 0x09, CHR 0x20]" "[CHR 0x0D, CHR 0x0A]" "''E = m c^2''"]
  by (simp add: is_whitespace_def)


section \<open>The provider\<close>

text \<open>
  C2, as stated: the second half fails. A payload that is not empty but holds only
  white space passes the presence check and is returned trimmed, as the empty string.
\<close>

theorem blank_payload_returns_empty_string:
  "generatePhysicsFact (Resolves (Some ''  '')) = Inr ''''"
  by (simp add: generatePhysicsFact_def try_block_def trim_def is_whitespace_def)

text \<open>
  C2, amended: for an absent and for an empty payload \<^verbatim>\<open>generatePhysicsFact\<close> fails
  with the no-content message (behind the prefix of the catch block); and it returns
  the empty string as a success only for a payload that is present, not empty, and made
  of white space alone.
\<close>

theorem empty_payload_fails:
  "generatePhysicsFact (Resolves None)
     = Inl (ErrorInstance ''Failed to generate fact from AI service: No content was returned from the API.'') \<and>
   generatePhysicsFact (Resolves (Some ''''))
     = Inl (ErrorInstance ''Failed to generate fact from AI service: No content was returned from the API.'') \<and>
   (generatePhysicsFact outcome = Inr '''' \<longrightarrow>
      (\<exists>t. outcome = Resolves (Some t) \<and> t \<noteq> [] \<and> (\<forall>c \<in> set t. is_whitespace c)))"
proof -
  have "generatePhysicsFact outcome = Inr '''' \<longrightarrow>
      (\<exists>t. outcome = Resolves (Some t) \<and> t \<noteq> [] \<and> (\<forall>c \<in> set t. is_whitespace c))"
  proof (cases outcome)
    case (Rejects e)
    then show ?thesis by (simp add: generatePhysicsFact_Rejects)
  next
    case (Resolves payload)
    then show ?thesis
      by (cases payload) (auto simp: generatePhysicsFact_Resolves trim_empty_iff)
  qed
  then show ?thesis
    by (simp add: generatePhysicsFact_Resolves FAILED_PREFIX_def NO_CONTENT_def)
qed

theorem empty_payload_fails_witness:
  "generatePhysicsFact (Resolves (Some [CHR 0x09, CHR 0x0A])) = Inr '''' \<and>
   (\<exists>t. Resolves (Some [CHR 0x09, CHR 0x0A]) = Resolves (Some t) \<and> t \<noteq> [] \<and>
        (\<forall>c \<in> set t. is_whitespace c))"
proof -
  have run: "generatePhysicsFact (Resolves (Some [CHR 0x09, CHR 0x0A])) = Inr ''''"
    by (simp add: generatePhysicsFact_def try_block_def trim_def is_whitespace_def)
  from empty_payload_fails [of "Resolves (Some [CHR 0x09, CHR 0x0A])"] run
  show ?thesis by blast
qed

text \<open>
  C6. A rejection with an \<^verbatim>\<open>Error\<close> of message \<open>M\<close> is rethrown with the message
  \<^verbatim>\<open>"Failed to generate fact from AI service: "\<close> followed by \<open>M\<close>; a rejection with a
  value that is no \<^verbatim>\<open>Error\<close> is rethrown with the fixed message. In the scenario of
  an initial load whose call fails with \<^verbatim>\<open>"timeout"\<close>, the state ends with the wrapped
  message and with the fact still null; the fact is null after every failed initial load.
\<close>

theorem provider_failure_wrapped:
  "generatePhysicsFact (Rejects (ErrorInstance M))
     = Inl (ErrorInstance (''Failed to generate fact from AI service: '' @ M)) \<and>
   generatePhysicsFact (Rejects NotError)
     = Inl (ErrorInstance ''An unknown error occurred while communicating with the AI service.'') \<and>
   refresh_settle (generatePhysicsFact (Rejects (ErrorInstance ''timeout'')))
       (refresh_start initial_state)
     = \<lparr>fact' = None, isLoading = False,
        error = Some ''Failed to generate fact from AI service: timeout''\<rparr> \<and>
   fact' (refresh_start initial_state) = None \<and>
   fact' (refresh_settle (generatePhysicsFact (Rejects e)) (refresh_start initial_state)) = None"
  by (simp add: generatePhysicsFact_Rejects FAILED_PREFIX_def UNKNOWN_AI_ERROR_def
      refresh_start_eq refresh_settle_failure initial_state_def)

text \<open>
  C10. Whatever \<^verbatim>\<open>generatePhysicsFact\<close> throws is an \<^verbatim>\<open>Error\<close> whose message starts
  with \<^verbatim>\<open>"Failed to generate fact from AI service: "\<close> or is the fixed message for
  unknown failures. The failure for a missing payload is thrown inside the
  \<^verbatim>\<open>try\<close> block and wrapped like every other: the caller receives the same error as
  for a rejected call whose message is \<^verbatim>\<open>"No content was returned from the API."\<close>.
\<close>

theorem every_failure_is_wrapped:
  "(generatePhysicsFact outcome = Inl thrown \<longrightarrow>
      (\<exists>m. thrown = ErrorInstance m \<and>
         ((\<exists>rest. m = ''Failed to generate fact from AI service: '' @ rest) \<or>
          m = ''An unknown error occurred while communicating with the AI service.''))) \<and>
   generatePhysicsFact (Resolves None)
     = Inl (ErrorInstance ''Failed to generate fact from AI service: No content was returned from the API.'') \<and>
   generatePhysicsFact (Resolves (Some ''''))
     = Inl (ErrorInstance ''Failed to generate fact from AI service: No content was returned from the API.'') \<and>
   generatePhysicsFact (Resolves None)
     = generatePhysicsFact (Rejects (ErrorInstance ''No content was returned from the API.''))"
proof -
  have "generatePhysicsFact outcome = Inl thrown \<longrightarrow>
      (\<exists>m. thrown = ErrorInstance m \<and>
         ((\<exists>rest. m = FAILED_PREFIX @ rest) \<or> m = UNKNOWN_AI_ERROR))"
  proof (cases outcome)
    case (Rejects e)
    then show ?thesis
      by (cases e) (auto simp: generatePhysicsFact_Rejects)
  next
    case (Resolves payload)
    then show ?thesis
      by (auto simp: generatePhysicsFact_Resolves split: if_splits)
  qed
  then show ?thesis
    by (simp add: generatePhysicsFact_Resolves generatePhysicsFact_Rejects
        FAILED_PREFIX_def UNKNOWN_AI_ERROR_def NO_CONTENT_def)
qed

theorem every_failure_is_wrapped_witness:
  "generatePhysicsFact (Rejects (ErrorInstance ''quota''))
     = Inl (ErrorInstance ''Failed to generate fact from AI service: quota'') \<and>
   (\<exists>m. ErrorInstance ''Failed to generate fact from AI service: quota'' = ErrorInstance m \<and>
      ((\<exists>rest. m = ''Failed to generate fact from AI service: '' @ rest) \<or>
       m = ''An unknown error occurred while communicating with the AI service.''))"
proof -
  have run: "generatePhysicsFact (Rejects (ErrorInstance ''quota''))
      = Inl (ErrorInstance ''Failed to generate fact from AI service: quota'')"
    by (simp add: generatePhysicsFact_Rejects FAILED_PREFIX_def)
  from every_failure_is_wrapped [of "Rejects (ErrorInstance ''quota'')"
      "ErrorInstance ''Failed to generate fact from AI service: quota''"] run
  show ?thesis by blast
qed

text \<open>
  C8. When \<^verbatim>\<open>process.env.API_KEY\<close> is not set (or is the empty string), the top level
  of the service module throws: no client object is built, and \<^verbatim>\<open>App.tsx\<close>, which
  imports the module, is not loaded, so no state is created. With a key that is not
  empty the client is built with that key and the application starts in its initial
  state.
\<close>

theorem missing_key_is_fatal:
  "(falsy API_KEY \<longrightarrow>
      geminiService_init API_KEY = Inl (ErrorInstance API_KEY_NOT_SET) \<and>
      load_App API_KEY = Inl (ErrorInstance API_KEY_NOT_SET)) \<and>
   (k \<noteq> [] \<longrightarrow>
      geminiService_init (Some k) = Inr \<lparr>apiKey = k\<rparr> \<and>
      load_App (Some k) = Inr (\<lparr>apiKey = k\<rparr>, initial_state))"
  by (cases API_KEY) (simp_all add: geminiService_init_def load_App_def)

theorem missing_key_is_fatal_witness:
  "geminiService_init None
     = Inl (ErrorInstance ''The API_KEY environment variable is not set. Please set it to a valid Google Gemini API key.'') \<and>
   load_App None
     = Inl (ErrorInstance ''The API_KEY environment variable is not set. Please set it to a valid Google Gemini API key.'') \<and>
   geminiService_init (Some ''secret'') = Inr \<lparr>apiKey = ''secret''\<rparr> \<and>
   load_App (Some ''secret'')
     = Inr (\<lparr>apiKey = ''secret''\<rparr>, \<lparr>fact' = None, isLoading = True, error = None\<rparr>)"
  using missing_key_is_fatal [of None "''secret''"]
  by (simp add: API_KEY_NOT_SET_def initial_state_def)


section \<open>The handler\<close>

text \<open>
  C3. When the call of a refresh fails with an \<^verbatim>\<open>Error\<close> of message \<open>M\<close>, the state
  after the settlement has a null fact and the error \<open>M\<close>, whatever the state was when
  the refresh started and whatever it is when the call settles: the earlier fact is
  dropped and the message is stored as it is.
\<close>

theorem failed_refresh_stores_message:
  "refresh_settle (Inl (ErrorInstance M)) (refresh_start s)
     = \<lparr>fact' = None, isLoading = False, error = Some M\<rparr> \<and>
   fact' (refresh_settle (Inl (ErrorInstance M)) s') = None \<and>
   error (refresh_settle (Inl (ErrorInstance M)) s') = Some M"
  by (simp add: refresh_start_eq refresh_settle_failure)

text \<open>
  C4. Invoking the handler sets \<^verbatim>\<open>isLoading\<close> to true and \<^verbatim>\<open>error\<close> to null and
  leaves the fact as it was. When \<^verbatim>\<open>isLoading\<close> is already true the setter is not
  called at all. No part of the handler that runs before the call settles calls
  \<^verbatim>\<open>setFact\<close>, whatever value of \<^verbatim>\<open>isLoading\<close> its closure holds.
\<close>

theorem refresh_start_frame:
  "isLoading (refresh_start s) \<and>
   error (refresh_start s) = None \<and>
   fact' (refresh_start s) = fact' s \<and>
   (isLoading s \<longrightarrow> before_await (isLoading s) = [SetError None]) \<and>
   (\<not> isLoading s \<longrightarrow> before_await (isLoading s) = [SetIsLoading True, SetError None]) \<and>
   (\<forall>b v. SetFact v \<notin> set (before_await b)) \<and>
   (\<forall>b. fact' (commit (before_await b) s) = fact' s \<and>
        error (commit (before_await b) s) = None)"
  by (simp add: refresh_start_eq before_await_def commit_def)

theorem refresh_start_frame_witness:
  "isLoading (refresh_start \<lparr>fact' = Some ''Fact A'', isLoading = False, error = Some ''old''\<rparr>) \<and>
   error (refresh_start \<lparr>fact' = Some ''Fact A'', isLoading = False, error = Some ''old''\<rparr>) = None \<and>
   fact' (refresh_start \<lparr>fact' = Some ''Fact A'', isLoading = False, error = Some ''old''\<rparr>)
     = Some ''Fact A'' \<and>
   before_await False = [SetIsLoading True, SetError None] \<and>
   before_await True = [SetError None]"
  using refresh_start_frame
          [of "\<lparr>fact' = Some ''Fact A'', isLoading = False, error = Some ''old''\<rparr>"]
        refresh_start_frame
          [of "\<lparr>fact' = Some ''Fact A'', isLoading = True, error = None\<rparr>"]
  by simp

text \<open>
  C5, as stated for every invocation: it fails when two invocations overlap. The
  settlement of the first call sets \<^verbatim>\<open>isLoading\<close> to false while the call of the
  second invocation is still in flight.
\<close>

theorem overlapping_refresh_ends_loading_early:
  "exec [Invoke, Invoke, Settle (generatePhysicsFact (Resolves (Some ''Fact A'')))]
        initial_controller
   = Some \<lparr>ui = \<lparr>fact' = Some ''Fact A'', isLoading = False, error = None\<rparr>,
           inflight = 1, mounted = True\<rparr>"
  by (simp add: initial_controller_def initial_state_def invoke_def settle_def
      refresh_start_eq refresh_settle_success
      generatePhysicsFact_def try_block_def trim_def is_whitespace_def)

text \<open>
  C5, amended: \<^verbatim>\<open>isLoading\<close> is true once the handler has been invoked; the part of
  the handler before the call never sets it to false; the part after the call sets it
  to false exactly once, on success and on failure alike, and leaves it false. In every
  run in which the handler is invoked by the mount effect and the button only, at most
  one call is in flight, and \<^verbatim>\<open>isLoading\<close> is true for as long as it is.
\<close>

theorem loading_bracket:
  "isLoading (refresh_start s) \<and>
   (\<forall>b. SetIsLoading False \<notin> set (before_await b)) \<and>
   count_list (after_await settled) (SetIsLoading False) = 1 \<and>
   \<not> isLoading (refresh_settle settled s') \<and>
   (ui_exec evs initial_controller = Some c \<longrightarrow>
      inflight c \<le> 1 \<and> (0 < inflight c \<longrightarrow> isLoading (ui c)))"
proof -
  have "count_list (after_await settled) (SetIsLoading False) = 1"
    by (cases settled) (simp_all add: after_await_def)
  moreover have "\<not> isLoading (refresh_settle settled s')"
    by (cases settled) (simp_all add: refresh_settle_success refresh_settle_failure)
  moreover have "ui_exec evs initial_controller = Some c \<longrightarrow>
      inflight c \<le> 1 \<and> (0 < inflight c \<longrightarrow> isLoading (ui c))"
  proof
    assume "ui_exec evs initial_controller = Some c"
    then have "ui_inv c" by (rule ui_exec_reachable_inv)
    then show "inflight c \<le> 1 \<and> (0 < inflight c \<longrightarrow> isLoading (ui c))"
      by (auto simp: ui_inv_def)
  qed
  ultimately show ?thesis
    by (simp add: refresh_start_eq before_await_def)
qed

theorem loading_bracket_witness:
  "ui_exec [Invoke, Settle (Inr ''Fact A''), Invoke] initial_controller
     = Some \<lparr>ui = \<lparr>fact' = Some ''Fact A'', isLoading = True, error = None\<rparr>,
             inflight = 1, mounted = True\<rparr> \<and>
   0 < inflight \<lparr>ui = \<lparr>fact' = Some ''Fact A'', isLoading = True, error = None\<rparr>,
             inflight = 1, mounted = True\<rparr> \<and>
   isLoading (ui \<lparr>ui = \<lparr>fact' = Some ''Fact A'', isLoading = True, error = None\<rparr>,
             inflight = 1, mounted = True\<rparr>) \<and>
   count_list (after_await (Inr ''Fact B'')) (SetIsLoading False) = 1"
proof -
  have run: "ui_exec [Invoke, Settle (Inr ''Fact A''), Invoke] initial_controller
     = Some \<lparr>ui = \<lparr>fact' = Some ''Fact A'', isLoading = True, error = None\<rparr>,
             inflight = 1, mounted = True\<rparr>"
    by (simp add: initial_controller_def initial_state_def invoke_def settle_def
        refresh_enabled_def refresh_start_eq refresh_settle_success)
  show ?thesis
    using run loading_bracket [where evs = "[Invoke, Settle (Inr ''Fact A''), Invoke]"
        and settled = "Inr ''Fact B''"
        and c = "\<lparr>ui = \<lparr>fact' = Some ''Fact A'', isLoading = True, error = None\<rparr>,
                  inflight = 1, mounted = True\<rparr>"]
    by simp
qed


section \<open>The derived flag\<close>

text \<open>
  C7. The claim says that the flag is false during every refresh that starts from a
  state where the error is not null, and the comments of the component say the same:
  the flag ``is true only on the very first load'', and later requests ``keep card
  content''. The code does otherwise. After an initial load that failed, the state
  shows the error and the button is enabled; a click on it runs \<^verbatim>\<open>setError(null)\<close>
  before the call, and while that call is in flight the flag is true.
\<close>

theorem card_loading_on_retry_after_error:
  "ui_exec [Invoke, Settle (generatePhysicsFact (Rejects (ErrorInstance ''timeout'')))]
       initial_controller
     = Some \<lparr>ui = \<lparr>fact' = None, isLoading = False,
                   error = Some ''Failed to generate fact from AI service: timeout''\<rparr>,
             inflight = 0, mounted = True\<rparr> \<and>
   ui_exec [Invoke, Settle (generatePhysicsFact (Rejects (ErrorInstance ''timeout''))), Invoke]
       initial_controller
     = Some \<lparr>ui = \<lparr>fact' = None, isLoading = True, error = None\<rparr>,
             inflight = 1, mounted = True\<rparr> \<and>
   isCardLoading \<lparr>fact' = None, isLoading = True, error = None\<rparr>"
  by (simp add: initial_controller_def initial_state_def invoke_def settle_def
      refresh_enabled_def refresh_start_eq refresh_settle_failure isCardLoading_def
      generatePhysicsFact_Rejects FAILED_PREFIX_def)

end
